theory Spec2Isabelle
  imports Complex_Main
begin

section \<open>Data model\<close>

text \<open>
  A label map is handled by the metric functions in flattened form: a one-dimensional
  array of integer class indices, here an \<open>int list\<close>. A binary mask (the result of
  \<open>array == c\<close>) is a \<open>bool list\<close>. Python floats are modelled by \<open>real\<close>: every
  count in the metric functions is a whole number, and the properties below are stated
  about the quotients the code forms from those counts; rounding is not modelled.
  Exceptions are values of the type \<open>error\<close>; a function that can raise returns
  \<open>error + 'a\<close>.
\<close>

datatype error =
    IndexError
  | ZeroDivisionError
  | ValueError string
  | KeyError string
  | RuntimeError string

type_synonym label_map = "int list"
type_synonym mask = "bool list"

section \<open>Array primitives used by the metric functions\<close>

text \<open>\<open>array == val\<close>: the element-wise comparison with a scalar.\<close>

definition eq_mask :: "label_map \<Rightarrow> int \<Rightarrow> mask" where
  "eq_mask xs val = map (\<lambda>x. x = val) xs"

text \<open>\<open>np.sum\<close> of a boolean array: the number of true entries.\<close>

definition np_sum :: "mask \<Rightarrow> nat" where
  "np_sum m = length (filter (\<lambda>b. b) m)"

text \<open>
  A binary element-wise operation on two one-dimensional arrays. Equal lengths
  combine position by position; an array of length one is broadcast against the other;
  any other pair of lengths raises \<open>ValueError\<close>.
\<close>

definition np_binop :: "(bool \<Rightarrow> bool \<Rightarrow> bool) \<Rightarrow> mask \<Rightarrow> mask \<Rightarrow> error + mask" where
  "np_binop f a b =
     (if length a = length b then Inr (map2 f a b)
      else if length a = 1 then Inr (map (\<lambda>y. f (a ! 0) y) b)
      else if length b = 1 then Inr (map (\<lambda>x. f x (b ! 0)) a)
      else Inl (ValueError ''operands could not be broadcast together''))"

section \<open>Global accuracy\<close>

text \<open>
  \<^verbatim>\<open>
  def compute_global_accuracy(pred, label):
      total = len(label)
      count = 0.0
      for i in range(total):
          if pred[i] == label[i]:
              count = count + 1.0
      return float(count) / float(total)
  \<close>
  The index \<open>i\<close> is below \<open>len(label)\<close> by construction; reading \<open>pred[i]\<close> past the end
  of \<open>pred\<close> raises \<open>IndexError\<close>. The final division is a division of Python floats:
  it raises \<open>ZeroDivisionError\<close> when \<open>total\<close> is zero.
\<close>

fun accuracy_loop :: "label_map \<Rightarrow> label_map \<Rightarrow> nat list \<Rightarrow> real \<Rightarrow> error + real" where
  "accuracy_loop pred label [] count = Inr count"
| "accuracy_loop pred label (i # is) count =
     (if i < length pred
      then accuracy_loop pred label is (if pred ! i = label ! i then count + 1 else count)
      else Inl IndexError)"

definition compute_global_accuracy :: "label_map \<Rightarrow> label_map \<Rightarrow> error + real" where
  "compute_global_accuracy pred label =
     (let total = length label in
      case accuracy_loop pred label [0..<total] 0 of
        Inl e \<Rightarrow> Inl e
      | Inr count \<Rightarrow>
          if total = 0 then Inl ZeroDivisionError else Inr (count / real total))"

section \<open>Dice coefficient\<close>

text \<open>
  \<^verbatim>\<open>
  def dice_coef(y_pred,y_true):
      y_true_f = y_true.flatten()
      y_pred_f = y_pred.flatten()
      intersection = np.sum(y_true_f * y_pred_f)
      smooth = 0.0001
      return (2. * intersection + smooth) / (np.sum(y_true_f) + np.sum(y_pred_f) + smooth)
  \<close>
  The arguments are boolean arrays, already flat; their product is the element-wise
  conjunction. The denominator is at least \<open>smooth\<close>, so the division never fails.
\<close>

definition smooth :: real where
  "smooth = 1 / 10000"

definition dice_coef :: "mask \<Rightarrow> mask \<Rightarrow> error + real" where
  "dice_coef y_pred y_true =
     (case np_binop (\<and>) y_true y_pred of
        Inl e \<Rightarrow> Inl e
      | Inr product \<Rightarrow>
          let intersection = np_sum product in
          Inr ((2 * real intersection + smooth)
               / (real (np_sum y_true + np_sum y_pred) + smooth)))"

section \<open>Sequencing of calls that can raise\<close>

definition bind_err :: "error + 'a \<Rightarrow> ('a \<Rightarrow> error + 'b) \<Rightarrow> error + 'b" where
  "bind_err m f = (case m of Inl e \<Rightarrow> Inl e | Inr x \<Rightarrow> f x)"

text \<open>\<open>xs[i]\<close> for a non-negative index: \<open>IndexError\<close> past the end.\<close>

definition get_item :: "'a list \<Rightarrow> nat \<Rightarrow> error + 'a" where
  "get_item xs i = (if i < length xs then Inr (xs ! i) else Inl IndexError)"

text \<open>
  The position a Python list of length \<open>n\<close> reads for the integer index \<open>j\<close>: negative
  indices count from the end, anything outside \<open>[-n, n)\<close> raises \<open>IndexError\<close> (here
  \<open>None\<close>).
\<close>

definition list_position :: "nat \<Rightarrow> int \<Rightarrow> nat option" where
  "list_position n j =
     (if 0 \<le> j \<and> j < int n then Some (nat j)
      else if - int n \<le> j \<and> j < 0 then Some (nat (int n + j))
      else None)"

section \<open>Intersection over union\<close>

text \<open>\<open>np.unique\<close>: the distinct values of an array in increasing order.\<close>

definition np_unique :: "label_map \<Rightarrow> int list" where
  "np_unique xs = sort (remdups xs)"

text \<open>
  \<^verbatim>\<open>
  def compute_iou(pred, label):
      pred, label = pred.cpu().numpy(), label.cpu().numpy()
      unique_labels = np.unique(label)
      num_unique_labels = len(unique_labels)
      I = np.zeros(num_unique_labels)
      U = np.zeros(num_unique_labels)
      for index, val in enumerate(unique_labels):
          pred_i = pred == val
          label_i = label == val
          I[index] = float(np.sum(np.logical_and(label_i, pred_i)))
          U[index] = float(np.sum(np.logical_or(label_i, pred_i)))
      return I / U
  \<close>
  The body of the loop for one label value yields the pair \<open>(I[index], U[index])\<close>.
\<close>

definition iou_entry :: "label_map \<Rightarrow> label_map \<Rightarrow> int \<Rightarrow> error + (real \<times> real)" where
  "iou_entry pred label val =
     (let pred_i = eq_mask pred val;
          label_i = eq_mask label val
      in bind_err (np_binop (\<and>) label_i pred_i) (\<lambda>both.
         bind_err (np_binop (\<or>) label_i pred_i) (\<lambda>either.
         Inr (real (np_sum both), real (np_sum either)))))"

fun iou_loop :: "label_map \<Rightarrow> label_map \<Rightarrow> int list \<Rightarrow> error + (real \<times> real) list" where
  "iou_loop pred label [] = Inr []"
| "iou_loop pred label (val # vals) =
     bind_err (iou_entry pred label val) (\<lambda>iu.
     bind_err (iou_loop pred label vals) (\<lambda>rest.
     Inr (iu # rest)))"

text \<open>
  The result is the element-wise quotient \<open>I / U\<close> of two numpy arrays. A numpy
  division by zero does not raise: it yields \<open>nan\<close> or \<open>inf\<close>, here \<open>NotFinite\<close>.
\<close>

datatype np_float = Finite real | NotFinite

definition np_divide :: "real \<Rightarrow> real \<Rightarrow> np_float" where
  "np_divide i u = (if u = 0 then NotFinite else Finite (i / u))"

definition compute_iou :: "label_map \<Rightarrow> label_map \<Rightarrow> error + np_float list" where
  "compute_iou pred label =
     bind_err (iou_loop pred label (np_unique label)) (\<lambda>IU.
     Inr (map (\<lambda>(i, u). np_divide i u) IU))"

section \<open>Multilabel Dice\<close>

text \<open>
  \<^verbatim>\<open>
  def dice_coef_multilabel(y_pred,y_true):
      num_labels = len(y_true.unique())
      dice=[]
      y_true, y_pred = y_true.cpu().numpy(), y_pred.cpu().numpy()
      for index in range(num_labels):
          dice.append(dice_coef(y_true == index, y_pred == index))
      return dice
  \<close>
\<close>

fun dice_loop :: "label_map \<Rightarrow> label_map \<Rightarrow> nat list \<Rightarrow> error + real list" where
  "dice_loop y_pred y_true [] = Inr []"
| "dice_loop y_pred y_true (index # rest) =
     bind_err (dice_coef (eq_mask y_true (int index)) (eq_mask y_pred (int index))) (\<lambda>d.
     bind_err (dice_loop y_pred y_true rest) (\<lambda>ds.
     Inr (d # ds)))"

definition dice_coef_multilabel :: "label_map \<Rightarrow> label_map \<Rightarrow> error + real list" where
  "dice_coef_multilabel y_pred y_true =
     (let num_labels = length (np_unique y_true)
      in dice_loop y_pred y_true [0..<num_labels])"

section \<open>Per-class accuracies\<close>

text \<open>
  \<^verbatim>\<open>
  def compute_class_accuracies(pred, label, num_classes):
      total = []
      for val in range(num_classes):
          total.append((label == val).sum())
      count = [0.0] * num_classes
      for i in range(len(label)):
          if pred[i] == label[i]:
              count[int(pred[i])] = count[int(pred[i])] + 1.0
      # If there are no pixels from a certain class in the GT,
      # it returns NAN because of divide by zero
      # Replace the nans with a 0.0.
      accuracies = []
      for i in range(len(total)):
          if total[i] == 0:
              accuracies.append(0.0)
          else:
              accuracies.append(count[i] / total[i])
      return accuracies
  \<close>
  The second loop reads \<open>pred[i]\<close>, which raises \<open>IndexError\<close> past the end of \<open>pred\<close>, and
  updates the Python list \<open>count\<close> at the integer index \<open>pred[i]\<close>.
\<close>

fun class_count_loop ::
  "label_map \<Rightarrow> label_map \<Rightarrow> nat list \<Rightarrow> real list \<Rightarrow> error + real list" where
  "class_count_loop pred label [] count = Inr count"
| "class_count_loop pred label (i # is) count =
     (if i < length pred
      then (if pred ! i = label ! i
            then (case list_position (length count) (pred ! i) of
                    None \<Rightarrow> Inl IndexError
                  | Some k \<Rightarrow>
                      class_count_loop pred label is (count[k := count ! k + 1]))
            else class_count_loop pred label is count)
      else Inl IndexError)"

definition compute_class_accuracies ::
  "label_map \<Rightarrow> label_map \<Rightarrow> nat \<Rightarrow> error + real list" where
  "compute_class_accuracies pred label num_classes =
     (let total = map (\<lambda>val. np_sum (eq_mask label (int val))) [0..<num_classes]
      in bind_err (class_count_loop pred label [0..<length label] (replicate num_classes 0))
           (\<lambda>count.
             Inr (map (\<lambda>i. if total ! i = 0 then 0 else count ! i / real (total ! i))
                    [0..<length total])))"

text \<open>
  The number of correctly predicted pixels of class \<open>c\<close>: the positions \<open>i\<close> of the label
  map with \<open>pred[i] = label[i] = c\<close>. The number of pixels that a map assigns to \<open>c\<close> is
  \<open>count_list\<close> of the map.
\<close>

definition correct_count :: "label_map \<Rightarrow> label_map \<Rightarrow> int \<Rightarrow> nat" where
  "correct_count pred label c =
     length (filter (\<lambda>i. pred ! i = label ! i \<and> pred ! i = c) [0..<length label])"

text \<open>
  The reading of the per-class accuracy in the specification's words: the fraction of
  correctly predicted pixels among the pixels predicted as class \<open>c\<close>.
\<close>

definition spec_class_accuracy :: "label_map \<Rightarrow> label_map \<Rightarrow> int \<Rightarrow> real" where
  "spec_class_accuracy pred label c =
     real (correct_count pred label c) / real (count_list pred c)"

section \<open>Precision and recall\<close>

text \<open>
  Modelled from the spec: \<open>precision_score\<close> and \<open>recall_score\<close> are functions of the
  scikit-learn library, which is not part of the repository's sources. Section 4.1
  describes them as per-class vectors with \<open>0.0\<close> substituted on an empty denominator;
  the vector has one entry for each label that occurs in either argument, in increasing
  order, and arguments of different lengths are rejected with \<open>ValueError\<close>.
  The first argument is the reference (\<open>y_true\<close>), the second the estimate (\<open>y_pred\<close>).
  \<open>true_positives\<close> counts the positions where both arguments hold the class.
\<close>

definition true_positives :: "label_map \<Rightarrow> label_map \<Rightarrow> int \<Rightarrow> nat" where
  "true_positives y_true y_pred c = np_sum (map2 (\<and>) (eq_mask y_true c) (eq_mask y_pred c))"

text \<open>
  Modelled from the spec: the library's \<open>precision_score\<close> with \<open>average=None\<close>; for each
  label the true positives over the number of positions the estimate assigns to it.
\<close>

definition precision_score :: "label_map \<Rightarrow> label_map \<Rightarrow> error + real list" where
  "precision_score y_true y_pred =
     (if length y_true \<noteq> length y_pred
      then Inl (ValueError ''Found input variables with inconsistent numbers of samples'')
      else Inr (map (\<lambda>c. if np_sum (eq_mask y_pred c) = 0 then 0
                          else real (true_positives y_true y_pred c)
                               / real (np_sum (eq_mask y_pred c)))
                  (np_unique (y_true @ y_pred))))"

text \<open>
  Modelled from the spec: the library's \<open>recall_score\<close> with \<open>average=None\<close> and
  \<open>zero_division = 0\<close>; for each label the true positives over the number of positions
  the reference assigns to it.
\<close>

definition recall_score :: "label_map \<Rightarrow> label_map \<Rightarrow> error + real list" where
  "recall_score y_true y_pred =
     (if length y_true \<noteq> length y_pred
      then Inl (ValueError ''Found input variables with inconsistent numbers of samples'')
      else Inr (map (\<lambda>c. if np_sum (eq_mask y_true c) = 0 then 0
                          else real (true_positives y_true y_pred c)
                               / real (np_sum (eq_mask y_true c)))
                  (np_unique (y_true @ y_pred))))"

section \<open>Evaluation of one batch\<close>

text \<open>
  The keys of the result dictionary: \<open>"accuracy"\<close> and, for each label index \<open>i\<close>,
  \<open>accuracy_label_i\<close>, \<open>recall_label_i\<close>, \<open>iou_label_i\<close> and \<open>dice_label_i\<close>.
\<close>

datatype metric_key =
    accuracy
  | accuracy_label nat
  | recall_label nat
  | iou_label nat
  | dice_label nat

fun dict_loop ::
  "real list \<Rightarrow> real list \<Rightarrow> np_float list \<Rightarrow> real list \<Rightarrow> nat list
   \<Rightarrow> (metric_key \<rightharpoonup> np_float) \<Rightarrow> error + (metric_key \<rightharpoonup> np_float)" where
  "dict_loop precision recall iou dice [] dict_eval = Inr dict_eval"
| "dict_loop precision recall iou dice (i # is) dict_eval =
     bind_err (get_item precision i) (\<lambda>p.
     bind_err (get_item recall i) (\<lambda>r.
     bind_err (get_item iou i) (\<lambda>u.
     bind_err (get_item dice i) (\<lambda>d.
     dict_loop precision recall iou dice is
       (dict_eval(accuracy_label i \<mapsto> Finite p, recall_label i \<mapsto> Finite r,
                  iou_label i \<mapsto> u, dice_label i \<mapsto> Finite d))))))"

text \<open>
  \<^verbatim>\<open>
  def evaluate_segmentation(pred, label, score_averaging=None):
      flat_pred = pred.flatten()
      flat_label = label.flatten()
      global_accuracy = compute_global_accuracy(flat_pred, flat_label)
      prec = precision_score(flat_pred, flat_label, average=score_averaging)
      rec = recall_score(flat_pred, flat_label, average=score_averaging, zero_division = 0)
      iou = compute_iou(flat_pred, flat_label)
      dice = dice_coef_multilabel(flat_pred, flat_label)
      dict_eval = {"accuracy":global_accuracy}
      for i in range(CONFIG.IMAGE.MASK_LABELS):
          dict_eval[f'accuracy_label_{i}'] = prec[i]
          dict_eval[f'recall_label_{i}'] = rec[i]
          dict_eval[f'iou_label_{i}'] = iou[i]
          dict_eval[f'dice_label_{i}'] = dice[i]
      return dict_eval
  \<close>
  \<open>evaluate_segmentation\<close> on flattened maps. The two library calls are parameters,
  called as the source calls them (prediction first); \<open>mask_labels\<close> is the configuration
  value \<open>CONFIG.IMAGE.MASK_LABELS\<close>. Nothing here catches an exception: the first
  call that raises ends the evaluation with that error.
\<close>

definition evaluate_segmentation ::
  "(label_map \<Rightarrow> label_map \<Rightarrow> error + real list) \<Rightarrow>
   (label_map \<Rightarrow> label_map \<Rightarrow> error + real list) \<Rightarrow>
   nat \<Rightarrow> label_map \<Rightarrow> label_map \<Rightarrow> error + (metric_key \<rightharpoonup> np_float)" where
  "evaluate_segmentation precision_f recall_f mask_labels flat_pred flat_label =
     bind_err (compute_global_accuracy flat_pred flat_label) (\<lambda>global_accuracy.
     bind_err (precision_f flat_pred flat_label) (\<lambda>precision.
     bind_err (recall_f flat_pred flat_label) (\<lambda>recall.
     bind_err (compute_iou flat_pred flat_label) (\<lambda>iou.
     bind_err (dice_coef_multilabel flat_pred flat_label) (\<lambda>dice.
     dict_loop precision recall iou dice [0..<mask_labels]
       [accuracy \<mapsto> Finite global_accuracy])))))"

section \<open>Early stopping and the training loop\<close>

text \<open>
  Modelled from the spec: the class \<open>EarlyStopping\<close> is defined in \<open>early_stopping.py\<close>,
  which is not among the repository's sources; \<open>main.py\<close> only constructs and calls it.
  Section 4.3 gives its state (\<open>best_loss\<close>, initially plus infinity, \<open>counter\<close>,
  \<open>early_stop\<close>), its parameters (\<open>patience\<close>, \<open>wait\<close>) and its transition, invoked once per
  epoch: (1) if \<open>epoch < wait\<close>, observe only; (2) else if the loss is below \<open>best_loss\<close>,
  store it, reset \<open>counter\<close> and persist the checkpoint; (3) else increment \<open>counter\<close>
  and set \<open>early_stop\<close> once \<open>counter >= patience\<close>.
  \<open>best_loss = None\<close> stands for plus infinity.
\<close>

record early_stopping =
  patience :: nat
  wait :: nat
  best_loss :: "real option"
  counter :: nat
  early_stop :: bool

text \<open>
  Modelled from the spec: the initial state, \<open>best_loss\<close> plus infinity, \<open>counter = 0\<close>,
  \<open>early_stop = false\<close>, for the given \<open>patience\<close> and \<open>wait\<close>.
\<close>

definition EarlyStopping :: "nat \<Rightarrow> nat \<Rightarrow> early_stopping" where
  "EarlyStopping p w =
     \<lparr>patience = p, wait = w, best_loss = None, counter = 0, early_stop = False\<rparr>"

text \<open>
  Modelled from the spec: the test \<open>current_val_loss < best_loss\<close>, true against plus
  infinity.
\<close>

definition below_best :: "real \<Rightarrow> real option \<Rightarrow> bool" where
  "below_best loss best = (case best of None \<Rightarrow> True | Some b \<Rightarrow> loss < b)"

text \<open>
  Modelled from the spec: one invocation of the policy, the three cases of section 4.3
  in their order. The second component tells whether the checkpoint was persisted by
  this invocation.
\<close>

definition stopping_call :: "early_stopping \<Rightarrow> real \<Rightarrow> nat \<Rightarrow> early_stopping \<times> bool" where
  "stopping_call s current_val_loss epoch =
     (if epoch < wait s then (s, False)
      else if below_best current_val_loss (best_loss s)
      then (s\<lparr>best_loss := Some current_val_loss, counter := 0\<rparr>, True)
      else (let c = counter s + 1
            in (s\<lparr>counter := c,
                   early_stop := (if patience s \<le> c then True else early_stop s)\<rparr>,
                False)))"

text \<open>
  The policy invoked on a sequence of losses, one per epoch, starting at epoch \<open>epoch\<close>,
  without looking at the flag: the state after each invocation.
\<close>

fun stopping_trace :: "early_stopping \<Rightarrow> nat \<Rightarrow> real list \<Rightarrow> early_stopping list" where
  "stopping_trace s epoch [] = []"
| "stopping_trace s epoch (loss # losses) =
     (let s' = fst (stopping_call s loss epoch)
      in s' # stopping_trace s' (Suc epoch) losses)"

text \<open>The number (counted from one) of the first invocation that leaves the flag set.\<close>

definition first_stop_call :: "early_stopping list \<Rightarrow> nat" where
  "first_stop_call trace = Suc (length (takeWhile (\<lambda>s. \<not> early_stop s) trace))"

text \<open>
  The loop of \<open>train_loop\<close> in \<open>main.py\<close>, reduced to its control flow:
  \<^verbatim>\<open>
  for epoch in range(NUM_EPOCHS):
      ...
      val_loss = validate_fn(val_loader, model, loss_fn)
      ...
      if EARLYSTOP:
          stopping(val_loss, checkpoint, checkpoint_path=..., epoch = epoch)
          if stopping.early_stop:
              ...
              break
  \<close>
  The delegated passes of the body are taken to return; the validation loss they produce
  is the function \<open>val_loss\<close> of the epoch. With \<open>EARLYSTOP\<close> set the policy is invoked
  and the loop breaks as soon as \<open>stopping.early_stop\<close> holds. The result is the list of
  epochs that ran and the final state of the policy.
\<close>

definition EARLYSTOP :: bool where
  "EARLYSTOP = True"

fun train_epochs ::
  "(nat \<Rightarrow> real) \<Rightarrow> nat list \<Rightarrow> early_stopping \<Rightarrow> nat list \<times> early_stopping" where
  "train_epochs val_loss [] stopping = ([], stopping)"
| "train_epochs val_loss (epoch # rest) stopping =
     (if EARLYSTOP
      then (let stopping' = fst (stopping_call stopping (val_loss epoch) epoch)
            in if early_stop stopping' then ([epoch], stopping')
               else (case train_epochs val_loss rest stopping' of
                       (epochs, final) \<Rightarrow> (epoch # epochs, final)))
      else (case train_epochs val_loss rest stopping of
              (epochs, final) \<Rightarrow> (epoch # epochs, final)))"

definition train_loop ::
  "(nat \<Rightarrow> real) \<Rightarrow> nat \<Rightarrow> early_stopping \<Rightarrow> nat list \<times> early_stopping" where
  "train_loop val_loss NUM_EPOCHS stopping = train_epochs val_loss [0..<NUM_EPOCHS] stopping"

section \<open>Loading a checkpoint\<close>

text \<open>
  \<^verbatim>\<open>
  def load_checkpoint(checkpoint, model, optimizer, scheduler):
      print("=> Loading checkpoint")
      try:
          model.load_state_dict(checkpoint["state_dict"])
          if optimizer is not None:
              optimizer.load_state_dict(checkpoint["optimizer"])
          if scheduler is not None:
              scheduler.load_state_dict(checkpoint["scheduler"])
          return
      except KeyError:
          pass
      try:
          model.load_state_dict(checkpoint)
      except KeyError as e:
          raise ValueError(f'Key {e} is different from expected "state_dict"')
      return checkpoint["epoch"]
  \<close>
  A checkpoint is a dictionary with string keys. The values that matter here are nested
  dictionaries (state dictionaries), tensors and numbers.
\<close>

datatype pyval =
    PyNone
  | PyInt int
  | PyTensor "real list"
  | PyDict "(string \<times> pyval) list"

type_synonym pydict = "(string \<times> pyval) list"

text \<open>\<open>d[key]\<close>: \<open>KeyError\<close> when the key is missing.\<close>

definition dict_get :: "pydict \<Rightarrow> string \<Rightarrow> error + pyval" where
  "dict_get d key = (case map_of d key of None \<Rightarrow> Inl (KeyError key) | Some v \<Rightarrow> Inr v)"

text \<open>
  The three objects that \<open>load_checkpoint\<close> updates. The optimizer and the scheduler
  may be \<open>None\<close>. The method \<open>load_state_dict\<close> of each object belongs to the deep-learning
  framework; it is a parameter of the model: given the value to load and the object, it
  yields the updated object or raises.
\<close>

record ('m, 'o, 's) objects =
  model :: 'm
  optimizer :: "'o option"
  scheduler :: "'s option"

type_synonym 'a load_state_dict = "pyval \<Rightarrow> 'a \<Rightarrow> error + 'a"

text \<open>\<open>if obj is not None: obj.load_state_dict(checkpoint[key])\<close>.\<close>

definition load_optional ::
  "'a load_state_dict \<Rightarrow> pydict \<Rightarrow> string \<Rightarrow> 'a option \<Rightarrow> error + 'a option" where
  "load_optional load checkpoint key obj =
     (case obj of
        None \<Rightarrow> Inr None
      | Some x \<Rightarrow>
          bind_err (dict_get checkpoint key) (\<lambda>v.
          bind_err (load v x) (\<lambda>x'. Inr (Some x'))))"

text \<open>
  The body of the first \<open>try\<close>: the structured form. An object loaded before a later
  statement raises stays loaded.
\<close>

definition load_structured ::
  "'m load_state_dict \<Rightarrow> 'o load_state_dict \<Rightarrow> 's load_state_dict \<Rightarrow> pydict
   \<Rightarrow> ('m, 'o, 's) objects \<Rightarrow> (error + unit) \<times> ('m, 'o, 's) objects" where
  "load_structured mload oload sload checkpoint objs =
     (case bind_err (dict_get checkpoint ''state_dict'') (\<lambda>v. mload v (model objs)) of
        Inl e \<Rightarrow> (Inl e, objs)
      | Inr m \<Rightarrow>
          let objs1 = objs\<lparr>model := m\<rparr> in
          (case load_optional oload checkpoint ''optimizer'' (optimizer objs1) of
             Inl e \<Rightarrow> (Inl e, objs1)
           | Inr opt \<Rightarrow>
               let objs2 = objs1\<lparr>optimizer := opt\<rparr> in
               (case load_optional sload checkpoint ''scheduler'' (scheduler objs2) of
                  Inl e \<Rightarrow> (Inl e, objs2)
                | Inr sch \<Rightarrow> (Inr (), objs2\<lparr>scheduler := sch\<rparr>))))"

text \<open>
  The message of the \<open>ValueError\<close>: \<open>Key 'k' is different from expected "state_dict"\<close>.
\<close>

definition key_message :: "string \<Rightarrow> string" where
  "key_message k =
     ''Key '' @ [CHR 0x27] @ k @ [CHR 0x27] @ '' is different from expected ''
     @ [CHR 0x22] @ ''state_dict'' @ [CHR 0x22]"

text \<open>
  The second \<open>try\<close> and the final \<open>return checkpoint["epoch"]\<close>: the whole checkpoint
  is loaded into the model as a bare state dictionary.
\<close>

definition load_bare ::
  "'m load_state_dict \<Rightarrow> pydict \<Rightarrow> ('m, 'o, 's) objects
   \<Rightarrow> (error + pyval) \<times> ('m, 'o, 's) objects" where
  "load_bare mload checkpoint objs =
     (case mload (PyDict checkpoint) (model objs) of
        Inl (KeyError k) \<Rightarrow> (Inl (ValueError (key_message k)), objs)
      | Inl e \<Rightarrow> (Inl e, objs)
      | Inr m \<Rightarrow> (dict_get checkpoint ''epoch'', objs\<lparr>model := m\<rparr>))"

definition is_KeyError :: "error \<Rightarrow> bool" where
  "is_KeyError e = (case e of KeyError k \<Rightarrow> True | _ \<Rightarrow> False)"

text \<open>
  \<open>load_checkpoint\<close>: the result (the returned value or the exception that leaves the
  function) and the objects as the call leaves them. Only a \<open>KeyError\<close> of the first
  \<open>try\<close> leads to the second; any other exception propagates.
\<close>

definition load_checkpoint ::
  "'m load_state_dict \<Rightarrow> 'o load_state_dict \<Rightarrow> 's load_state_dict \<Rightarrow> pydict
   \<Rightarrow> ('m, 'o, 's) objects \<Rightarrow> (error + pyval) \<times> ('m, 'o, 's) objects" where
  "load_checkpoint mload oload sload checkpoint objs =
     (case load_structured mload oload sload checkpoint objs of
        (Inr u, objs') \<Rightarrow> (Inr PyNone, objs')
      | (Inl e, objs') \<Rightarrow>
          if is_KeyError e then load_bare mload checkpoint objs' else (Inl e, objs'))"

section \<open>Auxiliary facts\<close>

subsection \<open>Masks and counts\<close>

lemma np_sum_eq_mask: "np_sum (eq_mask l c) = count_list l c"
  by (induction l) (simp_all add: np_sum_def eq_mask_def)

lemma np_sum_eq_mask_pos: "c \<in> set l \<Longrightarrow> 0 < np_sum (eq_mask l c)"
  unfolding np_sum_eq_mask by (induction l) auto

lemma set_np_unique: "set (np_unique l) = set l"
  by (simp add: np_unique_def)

lemma np_unique_append_same: "np_unique (l @ l) = np_unique l"
  by (simp add: np_unique_def remdups_append)

lemma map2_conj_self: "map2 (\<and>) m m = m"
  by (induction m) simp_all

lemma map2_disj_self: "map2 (\<or>) m m = m"
  by (induction m) simp_all

lemma map2_conj_commute: "map2 (\<and>) a b = map2 (\<and>) b a"
proof (induction a arbitrary: b)
  case Nil
  show ?case by simp
next
  case (Cons x xs)
  show ?case
    by (cases b) (simp_all add: Cons.IH conj_commute)
qed

lemma list_all_upt_less: "list_all (\<lambda>i. i < n) [0..<m] \<longleftrightarrow> m \<le> n"
  by (induction m) auto

lemma smooth_pos: "0 < smooth"
  by (simp add: smooth_def)

subsection \<open>The loop of the global accuracy\<close>

lemma accuracy_loop_in_range:
  "list_all (\<lambda>i. i < length pred) is \<Longrightarrow>
   accuracy_loop pred label is c =
     Inr (c + real (length (filter (\<lambda>i. pred ! i = label ! i) is)))"
  by (induction "is" arbitrary: c) simp_all

lemma accuracy_loop_out_of_range:
  "\<not> list_all (\<lambda>i. i < length pred) is \<Longrightarrow> accuracy_loop pred label is c = Inl IndexError"
  by (induction "is" arbitrary: c) simp_all

lemma compute_global_accuracy_value:
  assumes "label \<noteq> []" and "length label \<le> length pred"
  shows "compute_global_accuracy pred label =
     Inr (real (length (filter (\<lambda>i. pred ! i = label ! i) [0..<length label]))
          / real (length label))"
proof -
  from assms(2) have "list_all (\<lambda>i. i < length pred) [0..<length label]"
    by (simp add: list_all_upt_less)
  from accuracy_loop_in_range [OF this, of label 0] assms(1) show ?thesis
    by (simp add: compute_global_accuracy_def Let_def)
qed

lemma compute_global_accuracy_short:
  assumes "length pred < length label"
  shows "compute_global_accuracy pred label = Inl IndexError"
proof -
  from assms have "\<not> list_all (\<lambda>i. i < length pred) [0..<length label]"
    by (simp add: list_all_upt_less)
  from accuracy_loop_out_of_range [OF this, of label 0] show ?thesis
    by (simp add: compute_global_accuracy_def Let_def)
qed

lemma compute_global_accuracy_nil: "compute_global_accuracy pred [] = Inl ZeroDivisionError"
  by (simp add: compute_global_accuracy_def)

lemma compute_global_accuracy_same:
  assumes "l \<noteq> []"
  shows "compute_global_accuracy l l = Inr 1"
  using compute_global_accuracy_value [OF assms, of l] assms by simp

subsection \<open>Identical maps\<close>

lemma dice_coef_same: "dice_coef m m = Inr 1"
proof -
  have "2 * real (np_sum m) + smooth > 0"
    using smooth_pos by (simp add: add_nonneg_pos)
  then show ?thesis
    by (simp add: dice_coef_def np_binop_def map2_conj_self Let_def)
qed

lemma iou_entry_same:
  "iou_entry l l c = Inr (real (np_sum (eq_mask l c)), real (np_sum (eq_mask l c)))"
  by (simp add: iou_entry_def Let_def np_binop_def bind_err_def map2_conj_self map2_disj_self)

lemma iou_loop_same:
  "iou_loop l l vals =
     Inr (map (\<lambda>c. (real (np_sum (eq_mask l c)), real (np_sum (eq_mask l c)))) vals)"
  by (induction vals) (simp_all add: iou_entry_same bind_err_def)

lemma compute_iou_same: "compute_iou l l = Inr (map (\<lambda>c. Finite 1) (np_unique l))"
proof -
  have "\<And>c. c \<in> set (np_unique l) \<Longrightarrow>
          np_divide (real (np_sum (eq_mask l c))) (real (np_sum (eq_mask l c))) = Finite 1"
    using np_sum_eq_mask_pos [of _ l] by (simp add: np_divide_def set_np_unique)
  then show ?thesis
    by (simp add: compute_iou_def iou_loop_same bind_err_def)
qed

lemma dice_loop_same: "dice_loop l l is = Inr (map (\<lambda>c. 1) is)"
  by (induction "is") (simp_all add: dice_coef_same bind_err_def)

lemma dice_coef_multilabel_same:
  "dice_coef_multilabel l l = Inr (replicate (length (np_unique l)) 1)"
  by (simp add: dice_coef_multilabel_def dice_loop_same Let_def map_replicate_const)

lemma true_positives_same: "true_positives l l c = np_sum (eq_mask l c)"
  by (simp add: true_positives_def map2_conj_self)

lemma precision_score_same: "precision_score l l = Inr (map (\<lambda>c. 1) (np_unique l))"
  using np_sum_eq_mask_pos [of _ l]
  by (auto simp: precision_score_def true_positives_same np_unique_append_same set_np_unique)

lemma recall_score_same: "recall_score l l = Inr (map (\<lambda>c. 1) (np_unique l))"
  using np_sum_eq_mask_pos [of _ l]
  by (auto simp: recall_score_def true_positives_same np_unique_append_same set_np_unique)

subsection \<open>Maps of equal length\<close>

lemma iou_entry_equal_length:
  assumes "length pred = length label"
  shows "iou_entry pred label val =
     Inr (real (np_sum (map2 (\<and>) (eq_mask label val) (eq_mask pred val))),
          real (np_sum (map2 (\<or>) (eq_mask label val) (eq_mask pred val))))"
  using assms by (simp add: iou_entry_def Let_def np_binop_def bind_err_def eq_mask_def)

lemma iou_loop_equal_length:
  assumes "length pred = length label"
  shows "iou_loop pred label vals =
     Inr (map (\<lambda>val. (real (np_sum (map2 (\<and>) (eq_mask label val) (eq_mask pred val))),
                      real (np_sum (map2 (\<or>) (eq_mask label val) (eq_mask pred val)))))
            vals)"
  by (induction vals) (simp_all add: iou_entry_equal_length [OF assms] bind_err_def)

text \<open>The IoU vector has one entry for each distinct value of the label map.\<close>

lemma compute_iou_length:
  assumes "length pred = length label"
  shows "\<exists>iou. compute_iou pred label = Inr iou \<and> length iou = card (set label)"
  by (simp add: compute_iou_def iou_loop_equal_length [OF assms] bind_err_def np_unique_def
      length_remdups_card_conv)

lemma dice_coef_equal_length:
  assumes "length a = length b"
  shows "dice_coef a b =
     Inr ((2 * real (np_sum (map2 (\<and>) a b)) + smooth)
          / (real (np_sum a + np_sum b) + smooth))"
  using assms
  by (simp add: dice_coef_def np_binop_def Let_def map2_conj_commute [of b a] add.commute)

lemma dice_loop_equal_length:
  assumes "length y_pred = length y_true"
  shows "dice_loop y_pred y_true is =
     Inr (map (\<lambda>c. (2 * real (np_sum (map2 (\<and>) (eq_mask y_true (int c))
                                                  (eq_mask y_pred (int c))))
                      + smooth)
                    / (real (count_list y_true (int c) + count_list y_pred (int c)) + smooth))
            is)"
proof (induction "is")
  case Nil
  show ?case by simp
next
  case (Cons i "is")
  have "length (eq_mask y_true (int i)) = length (eq_mask y_pred (int i))"
    using assms by (simp add: eq_mask_def)
  from dice_coef_equal_length [OF this] Cons show ?case
    by (simp add: bind_err_def np_sum_eq_mask)
qed

text \<open>
  The multilabel Dice vector has one entry for each index below the number of distinct
  values of the ground truth, and each entry is the smoothed Dice quotient of the two
  masks of that index.
\<close>

lemma dice_coef_multilabel_value:
  assumes "length y_pred = length y_true"
  shows "dice_coef_multilabel y_pred y_true =
     Inr (map (\<lambda>c. (2 * real (np_sum (map2 (\<and>) (eq_mask y_true (int c))
                                                  (eq_mask y_pred (int c))))
                      + smooth)
                    / (real (count_list y_true (int c) + count_list y_pred (int c)) + smooth))
            [0..<card (set y_true)])"
  by (simp add: dice_coef_multilabel_def Let_def dice_loop_equal_length [OF assms]
      np_unique_def length_remdups_card_conv)

subsection \<open>The counting loop of the per-class accuracies\<close>

lemma list_position_in_range:
  "0 \<le> j \<Longrightarrow> j < int n \<Longrightarrow> list_position n j = Some (nat j)"
  by (simp add: list_position_def)

lemma class_count_loop_value:
  assumes "list_all (\<lambda>i. i < length pred) is"
    and "list_all (\<lambda>i. 0 \<le> label ! i \<and> label ! i < int (length count)) is"
  shows "class_count_loop pred label is count =
     Inr (map (\<lambda>k. count ! k
                  + real (length (filter (\<lambda>i. pred ! i = label ! i \<and> pred ! i = int k) is)))
            [0..<length count])"
  using assms
proof (induction "is" arbitrary: count)
  case Nil
  show ?case by (simp add: map_nth)
next
  case (Cons i "is")
  show ?case
  proof (cases "pred ! i = label ! i")
    case False
    with Cons show ?thesis by simp
  next
    case True
    define k where "k = nat (pred ! i)"
    from Cons.prems True have rng: "0 \<le> pred ! i" "pred ! i < int (length count)"
      by simp_all
    then have pos: "list_position (length count) (pred ! i) = Some k"
      by (simp add: list_position_in_range k_def)
    have klt: "k < length count" using rng by (simp add: k_def)
    have keq: "\<And>k'. pred ! i = int k' \<longleftrightarrow> k' = k" using rng by (auto simp: k_def)
    have keq': "\<And>k'. label ! i = int k' \<longleftrightarrow> k' = k" using keq True by simp
    let ?count' = "count[k := count ! k + 1]"
    from Cons.prems have p1: "list_all (\<lambda>i. i < length pred) is"
      and p2: "list_all (\<lambda>i. 0 \<le> label ! i \<and> label ! i < int (length ?count')) is"
      by simp_all
    have step: "class_count_loop pred label (i # is) count
                = class_count_loop pred label is ?count'"
      using Cons.prems True pos by simp
    show ?thesis
      unfolding step Cons.IH [OF p1 p2]
      using True klt by (auto simp: keq keq' nth_list_update)
  qed
qed

lemma correct_count_pos_in_pred:
  assumes "0 < correct_count pred label c" and "length label \<le> length pred"
  shows "c \<in> set pred"
proof -
  from assms(1)
  have "filter (\<lambda>i. pred ! i = label ! i \<and> pred ! i = c) [0..<length label] \<noteq> []"
    by (simp add: correct_count_def)
  then obtain i where "i < length label" "pred ! i = c"
    by (auto simp: filter_empty_conv)
  with assms(2) show ?thesis by (metis nth_mem order_less_le_trans)
qed

lemma compute_class_accuracies_value:
  assumes len: "length label \<le> length pred"
    and rng: "list_all (\<lambda>x. 0 \<le> x \<and> x < int num_classes) label"
  shows "compute_class_accuracies pred label num_classes =
     Inr (map (\<lambda>c. if count_list label (int c) = 0 then 0
                    else real (correct_count pred label (int c))
                         / real (count_list label (int c)))
            [0..<num_classes])"
proof -
  have a: "list_all (\<lambda>i. i < length pred) [0..<length label]"
    using len by (simp add: list_all_upt_less)
  have b: "list_all (\<lambda>i. 0 \<le> label ! i
                          \<and> label ! i < int (length (replicate num_classes (0::real))))
             [0..<length label]"
    using rng by (simp add: list_all_iff)
  show ?thesis
    unfolding compute_class_accuracies_def Let_def class_count_loop_value [OF a b]
    by (simp add: bind_err_def np_sum_eq_mask correct_count_def)
qed

subsection \<open>A batch whose ground truth lacks classes\<close>

lemma global_accuracy_example:
  "compute_global_accuracy [0, 1, 1, 2] [0, 0, 1, 1] = Inr (1 / 2)"
  by (simp add: compute_global_accuracy_def upt_conv_Cons)

lemma compute_iou_example:
  "compute_iou [0, 1, 1, 2] [0, 0, 1, 1] = Inr [Finite (1 / 2), Finite (1 / 3)]"
  by (simp add: compute_iou_def np_unique_def iou_entry_def np_binop_def np_sum_def
      eq_mask_def bind_err_def np_divide_def Let_def)

lemma dice_coef_multilabel_example:
  "dice_coef_multilabel [0, 1, 1, 2] [0, 0, 1, 1] = Inr [20001 / 30001, 20001 / 40001]"
  by (simp add: dice_coef_multilabel_def np_unique_def dice_coef_def np_binop_def np_sum_def
      eq_mask_def smooth_def bind_err_def upt_conv_Cons Let_def)

lemma dict_loop_two_iou_entries:
  "isl (dict_loop precision recall [u0, u1] dice [0, 1, 2, 3] d)"
  by (simp add: get_item_def bind_err_def split: sum.splits)

subsection \<open>Loading a checkpoint\<close>

lemma load_checkpoint_structured:
  assumes "map_of checkpoint ''state_dict'' = Some sd"
    and "mload sd (model objs) = Inr m"
    and "load_optional oload checkpoint ''optimizer'' (optimizer objs) = Inr opt"
    and "load_optional sload checkpoint ''scheduler'' (scheduler objs) = Inr sch"
  shows "load_checkpoint mload oload sload checkpoint objs
         = (Inr PyNone, \<lparr>model = m, optimizer = opt, scheduler = sch\<rparr>)"
  using assms
  by (simp add: load_checkpoint_def load_structured_def dict_get_def bind_err_def Let_def)

lemma load_checkpoint_fallback_key_error:
  assumes "map_of checkpoint ''state_dict'' = None"
    and "mload (PyDict checkpoint) (model objs) = Inl (KeyError k)"
  shows "load_checkpoint mload oload sload checkpoint objs
         = (Inl (ValueError (key_message k)), objs)"
  using assms
  by (simp add: load_checkpoint_def load_structured_def load_bare_def dict_get_def
      bind_err_def is_KeyError_def)

subsection \<open>The training loop under the stopping policy\<close>

text \<open>
  Whatever the configured number of epochs (at least four) and whatever the later losses,
  a run whose first four validation losses are \<open>1.0, 0.9, 0.95, 0.96\<close> ends in the
  fourth epoch.
\<close>

lemma train_loop_stops_in_fourth_epoch:
  assumes "4 \<le> NUM_EPOCHS"
    and "val_loss 0 = 1" and "val_loss 1 = 9 / 10"
    and "val_loss 2 = 95 / 100" and "val_loss 3 = 96 / 100"
  shows "train_loop val_loss NUM_EPOCHS (EarlyStopping 2 0)
         = ([0, 1, 2, 3],
            \<lparr>patience = 2, wait = 0, best_loss = Some (9 / 10), counter = 2,
             early_stop = True\<rparr>)"
proof -
  from assms(1) have "[0..<NUM_EPOCHS] = 0 # 1 # 2 # 3 # [4..<NUM_EPOCHS]"
    by (simp add: upt_conv_Cons eval_nat_numeral)
  then show ?thesis
    using assms(2-5)
    by (simp add: train_loop_def EARLYSTOP_def EarlyStopping_def stopping_call_def
        below_best_def Let_def eval_nat_numeral)
qed

section \<open>Properties of the Dice coefficient\<close>

text \<open>
  C9. For every binary mask \<open>m\<close>, the empty and the all-false masks included,
  \<open>dice_coef(m, m)\<close> is exactly 1: numerator and denominator are both
  \<open>2 * |m| + smooth\<close>, which is \<open>smooth / smooth\<close> when no entry is set. (In floating
  point the two are the same sum of the same two floats, so the quotient is \<open>1.0\<close> there
  too.)
\<close>

theorem dice_coef_self: "dice_coef m m = Inr 1 \<and> dice_coef [] [] = Inr 1"
proof
  show "dice_coef m m = Inr 1" by (rule dice_coef_same)
  show "dice_coef [] [] = Inr 1"
    by (simp add: dice_coef_def np_binop_def np_sum_def smooth_def)
qed

text \<open>
  C6. The Dice coefficient is symmetric: for binary masks \<open>a\<close> and \<open>b\<close> of equal length,
  \<open>dice_coef(a, b)\<close> returns a value and it is the value of \<open>dice_coef(b, a)\<close>.
\<close>

theorem dice_coef_symmetric:
  assumes "length a = length b"
  shows "dice_coef a b = dice_coef b a \<and> \<not> isl (dice_coef a b)"
proof -
  have "np_sum (map2 (\<and>) b a) = np_sum (map2 (\<and>) a b)"
    by (simp add: map2_conj_commute [of a b])
  with assms show ?thesis
    by (simp add: dice_coef_def np_binop_def Let_def add.commute)
qed

theorem dice_coef_symmetric_witness:
  "length [True, False, True] = length [True, True, False]
   \<and> dice_coef [True, False, True] [True, True, False]
       = dice_coef [True, True, False] [True, False, True]
   \<and> dice_coef [True, False, True] [True, True, False] = Inr (20001 / 40001)"
  using dice_coef_symmetric [of "[True, False, True]" "[True, True, False]"]
  by (simp add: dice_coef_def np_binop_def np_sum_def smooth_def Let_def)

section \<open>Properties of the global accuracy\<close>

text \<open>
  C10. \<open>compute_global_accuracy\<close> has no value on an empty label map: with
  \<open>len(label) = 0\<close> the final division is by zero and \<open>ZeroDivisionError\<close> is raised,
  whatever \<open>pred\<close> is. It returns a value exactly when the label map is non-empty and
  \<open>pred\<close> has at least as many entries as \<open>label\<close>.
\<close>

theorem compute_global_accuracy_empty:
  "compute_global_accuracy pred [] = Inl ZeroDivisionError
   \<and> ((\<exists>v. compute_global_accuracy pred label = Inr v)
        \<longleftrightarrow> label \<noteq> [] \<and> length label \<le> length pred)"
proof -
  have defined: "(\<exists>v. compute_global_accuracy pred label = Inr v)
                  \<longleftrightarrow> label \<noteq> [] \<and> length label \<le> length pred"
  proof (cases "length label \<le> length pred")
    case True
    show ?thesis
    proof (cases "label = []")
      case True
      then show ?thesis by (simp add: compute_global_accuracy_nil)
    next
      case False
      with \<open>length label \<le> length pred\<close> show ?thesis
        by (simp add: compute_global_accuracy_value)
    qed
  next
    case False
    then show ?thesis by (simp add: compute_global_accuracy_short)
  qed
  with compute_global_accuracy_nil [of pred] show ?thesis by simp
qed

theorem compute_global_accuracy_empty_witness:
  "compute_global_accuracy [1, 2] [] = Inl ZeroDivisionError
   \<and> compute_global_accuracy [0, 1, 1] [0, 1, 2] = Inr (2 / 3)
   \<and> [0, 1, 2 :: int] \<noteq> [] \<and> length [0, 1, 2 :: int] \<le> length [0, 1, 1 :: int]"
  using compute_global_accuracy_empty [of "[1, 2]" "[0, 1, 2]"]
  by (simp add: compute_global_accuracy_def upt_conv_Cons)

text \<open>
  C7 (as amended). For flattened prediction and label maps of different lengths the
  evaluation \<open>evaluate_segmentation\<close> fails: it ends with an error and returns no
  result, since nothing in it catches an exception. When the prediction is the shorter
  one, it is \<open>compute_global_accuracy\<close> that fails, with \<open>IndexError\<close>, and the evaluation
  ends there whatever the other metric functions would do. When the prediction is the
  longer one, \<open>compute_global_accuracy\<close> does not reject the pair: on a non-empty label map
  it returns the fraction of agreeing positions among the first \<open>len(label)\<close> ones, and the
  evaluation fails at the next call, \<open>precision_score\<close>, with \<open>ValueError\<close>; on an empty
  label map it raises \<open>ZeroDivisionError\<close>.
\<close>

theorem shape_mismatch_fails:
  assumes "length pred \<noteq> length label"
  shows "isl (evaluate_segmentation precision_score recall_score mask_labels pred label)
     \<and> (length pred < length label \<longrightarrow>
          compute_global_accuracy pred label = Inl IndexError
          \<and> evaluate_segmentation precision_f recall_f mask_labels pred label = Inl IndexError)
     \<and> (length label < length pred \<and> label \<noteq> [] \<longrightarrow>
          compute_global_accuracy pred label =
            Inr (real (length (filter (\<lambda>i. pred ! i = label ! i) [0..<length label]))
                 / real (length label))
          \<and> evaluate_segmentation precision_score recall_score mask_labels pred label =
              Inl (ValueError ''Found input variables with inconsistent numbers of samples''))
     \<and> (label = [] \<longrightarrow>
          compute_global_accuracy pred label = Inl ZeroDivisionError
          \<and> evaluate_segmentation precision_f recall_f mask_labels pred label
              = Inl ZeroDivisionError)"
proof -
  have short: "compute_global_accuracy pred label = Inl IndexError
      \<and> evaluate_segmentation f g mask_labels pred label = Inl IndexError"
    if "length pred < length label" for f g
    using compute_global_accuracy_short [OF that]
    by (simp add: evaluate_segmentation_def bind_err_def)
  have long: "compute_global_accuracy pred label =
            Inr (real (length (filter (\<lambda>i. pred ! i = label ! i) [0..<length label]))
                 / real (length label))
      \<and> evaluate_segmentation precision_score recall_score mask_labels pred label =
          Inl (ValueError ''Found input variables with inconsistent numbers of samples'')"
    if "length label < length pred" and "label \<noteq> []"
  proof -
    from that have le: "length label \<le> length pred" by simp
    from compute_global_accuracy_value [OF that(2) le] assms show ?thesis
      by (simp add: evaluate_segmentation_def bind_err_def precision_score_def)
  qed
  have empty: "compute_global_accuracy pred label = Inl ZeroDivisionError
      \<and> evaluate_segmentation f g mask_labels pred label = Inl ZeroDivisionError"
    if "label = []" for f g
    using that
    by (simp add: compute_global_accuracy_nil evaluate_segmentation_def bind_err_def)
  have fails: "isl (evaluate_segmentation precision_score recall_score mask_labels pred label)"
  proof (cases "length pred < length label")
    case True
    with short [of precision_score recall_score] show ?thesis by simp
  next
    case False
    with assms have gt: "length label < length pred" by simp
    show ?thesis
    proof (cases "label = []")
      case True
      with empty [of precision_score recall_score] show ?thesis by simp
    next
      case False
      with long [OF gt] show ?thesis by simp
    qed
  qed
  from fails short long empty show ?thesis by blast
qed

theorem shape_mismatch_fails_witness:
  "length [0 :: int] \<noteq> length [0, 1 :: int]
   \<and> length [0 :: int] < length [0, 1 :: int]
   \<and> compute_global_accuracy [0] [0, 1] = Inl IndexError
   \<and> evaluate_segmentation precision_score recall_score 4 [0] [0, 1] = Inl IndexError
   \<and> length [0, 1 :: int] \<noteq> length [0 :: int]
   \<and> length [0 :: int] < length [0, 1 :: int] \<and> [0 :: int] \<noteq> []
   \<and> compute_global_accuracy [0, 1] [0] = Inr 1
   \<and> evaluate_segmentation precision_score recall_score 4 [0, 1] [0]
       = Inl (ValueError ''Found input variables with inconsistent numbers of samples'')
   \<and> length [1, 2 :: int] \<noteq> length ([] :: int list)
   \<and> compute_global_accuracy [1, 2] [] = Inl ZeroDivisionError
   \<and> evaluate_segmentation precision_score recall_score 4 [1, 2] [] = Inl ZeroDivisionError"
  using shape_mismatch_fails [of "[0]" "[0, 1]" 4 precision_score recall_score]
    shape_mismatch_fails [of "[0, 1]" "[0]" 4 precision_score recall_score]
    shape_mismatch_fails [of "[1, 2]" "[]" 4 precision_score recall_score]
  by simp

text \<open>
  C7, the claim as stated fails in its clause on the global accuracy: a prediction that
  is longer than the label map does not match it in shape, yet
  \<open>compute_global_accuracy\<close> raises nothing and returns a value.
\<close>

theorem global_accuracy_long_prediction_counterexample:
  "length [0, 1 :: int] \<noteq> length [0 :: int]
   \<and> compute_global_accuracy [0, 1] [0] = Inr 1"
  by (simp add: compute_global_accuracy_def)

section \<open>Identical prediction and label maps\<close>

text \<open>
  C5. For a non-empty label map \<open>l\<close> used as prediction and as ground truth, the global
  accuracy is exactly 1, and every per-class value is exactly 1: the IoU, precision and
  recall vectors have one entry for each class present in \<open>l\<close> (the entries of
  \<open>np_unique l\<close>), each equal to 1; the Dice coefficient of the masks of any class is 1,
  and so is every entry of the multilabel Dice vector.
\<close>

theorem identical_maps_score_one:
  assumes "l \<noteq> []"
  shows "compute_global_accuracy l l = Inr 1
         \<and> set (np_unique l) = set l
         \<and> compute_iou l l = Inr (map (\<lambda>c. Finite 1) (np_unique l))
         \<and> precision_score l l = Inr (map (\<lambda>c. 1) (np_unique l))
         \<and> recall_score l l = Inr (map (\<lambda>c. 1) (np_unique l))
         \<and> (\<forall>c \<in> set l. dice_coef (eq_mask l c) (eq_mask l c) = Inr 1)
         \<and> dice_coef_multilabel l l = Inr (replicate (length (np_unique l)) 1)"
  using compute_global_accuracy_same [OF assms]
  by (simp add: set_np_unique compute_iou_same precision_score_same recall_score_same
      dice_coef_same dice_coef_multilabel_same)

theorem identical_maps_score_one_witness:
  "[0, 1, 1, 3 :: int] \<noteq> []
   \<and> compute_global_accuracy [0, 1, 1, 3] [0, 1, 1, 3] = Inr 1
   \<and> np_unique [0, 1, 1, 3] = [0, 1, 3]
   \<and> compute_iou [0, 1, 1, 3] [0, 1, 1, 3] = Inr [Finite 1, Finite 1, Finite 1]
   \<and> precision_score [0, 1, 1, 3] [0, 1, 1, 3] = Inr [1, 1, 1]
   \<and> recall_score [0, 1, 1, 3] [0, 1, 1, 3] = Inr [1, 1, 1]
   \<and> dice_coef (eq_mask [0, 1, 1, 3] 3) (eq_mask [0, 1, 1, 3] 3) = Inr 1
   \<and> dice_coef_multilabel [0, 1, 1, 3] [0, 1, 1, 3] = Inr [1, 1, 1]"
proof -
  have u: "np_unique [0, 1, 1, 3] = [0, 1, 3]"
    by (simp add: np_unique_def)
  from identical_maps_score_one [of "[0, 1, 1, 3]"] show ?thesis
    by (simp add: u numeral_3_eq_3)
qed

section \<open>Per-class accuracies\<close>

text \<open>
  C1 (as amended). For two label maps of equal length whose ground-truth values lie in
  \<open>[0, num_classes)\<close> and every class index \<open>c\<close> below \<open>num_classes\<close>,
  \<open>compute_class_accuracies\<close> returns a vector of length \<open>num_classes\<close> whose entry for
  \<open>c\<close> is the number of correctly predicted pixels of class \<open>c\<close> divided by the number of
  ground-truth pixels of class \<open>c\<close>, and \<open>0.0\<close> when the ground truth has no pixel of
  class \<open>c\<close>. When no pixel is predicted as \<open>c\<close> the entry is \<open>0.0\<close> as well.
\<close>

theorem class_accuracies_over_ground_truth:
  assumes "length pred = length label"
    and "\<forall>x \<in> set label. 0 \<le> x \<and> x < int num_classes"
    and "c < num_classes"
  shows "\<exists>acc. compute_class_accuracies pred label num_classes = Inr acc
           \<and> length acc = num_classes
           \<and> acc ! c = (if count_list label (int c) = 0 then 0
                        else real (correct_count pred label (int c))
                             / real (count_list label (int c)))
           \<and> (count_list pred (int c) = 0 \<longrightarrow> acc ! c = 0)"
proof -
  from assms(2) have rng: "list_all (\<lambda>x. 0 \<le> x \<and> x < int num_classes) label"
    by (simp add: list_all_iff)
  from assms(1) have len: "length label \<le> length pred" by simp
  have zero: "correct_count pred label (int c) = 0" if "count_list pred (int c) = 0"
  proof (rule ccontr)
    assume "correct_count pred label (int c) \<noteq> 0"
    then have "int c \<in> set pred"
      using correct_count_pos_in_pred [OF _ len] by simp
    with that show False by (simp add: count_list_0_iff)
  qed
  show ?thesis
    unfolding compute_class_accuracies_value [OF len rng]
    using assms(3) zero by auto
qed

theorem class_accuracies_over_ground_truth_witness:
  "length [0, 0, 1, 1 :: int] = length [0, 1, 1, 2 :: int]
   \<and> list_all (\<lambda>x. 0 \<le> x \<and> x < int 4) [0, 1, 1, 2]
   \<and> (1 :: nat) < 4 \<and> (2 :: nat) < 4
   \<and> compute_class_accuracies [0, 0, 1, 1] [0, 1, 1, 2] 4 = Inr [1, 1 / 2, 0, 0]
   \<and> correct_count [0, 0, 1, 1] [0, 1, 1, 2] 1 = 1
   \<and> count_list [0, 1, 1, 2 :: int] 1 = 2
   \<and> count_list [0, 0, 1, 1 :: int] 2 = 0
   \<and> count_list [0, 1, 1, 2 :: int] 2 = 1"
  using class_accuracies_over_ground_truth [of "[0, 0, 1, 1]" "[0, 1, 1, 2]" 4 1]
    class_accuracies_over_ground_truth [of "[0, 0, 1, 1]" "[0, 1, 1, 2]" 4 2]
  by (simp add: compute_class_accuracies_def upt_conv_Cons list_position_def bind_err_def
      np_sum_def eq_mask_def correct_count_def)

text \<open>
  C1, the claim as stated fails: with \<open>pred = [0, 0]\<close> and \<open>label = [0, 1]\<close> one of the two
  pixels predicted as class 0 is correct, so the fraction among the pixels predicted as
  class 0 is one half, but the entry for class 0 is 1: the denominator is the number of
  ground-truth pixels of the class.
\<close>

theorem class_accuracies_counterexample:
  "compute_class_accuracies [0, 0] [0, 1] 2 = Inr [1, 0]
   \<and> spec_class_accuracy [0, 0] [0, 1] 0 = 1 / 2
   \<and> compute_class_accuracies [0, 0] [0, 1] 2
       \<noteq> Inr (map (\<lambda>c. spec_class_accuracy [0, 0] [0, 1] (int c)) [0..<2])"
  by (simp add: compute_class_accuracies_def upt_conv_Cons list_position_def bind_err_def
      np_sum_def eq_mask_def spec_class_accuracy_def correct_count_def)

section \<open>Per-class vectors when a class is absent from the ground truth\<close>

text \<open>
  C2, at the input \<open>pred = [0, 1, 1, 2]\<close>, \<open>label = [0, 0, 1, 1]\<close> with four configured
  classes: the ground truth holds classes 0 and 1 only. The IoU and Dice vectors have two
  entries, not four, and \<open>evaluate_segmentation\<close>, which reads entry \<open>i\<close> of each vector for
  every \<open>i\<close> below the number of classes, raises \<open>IndexError\<close> instead of reporting \<open>0.0\<close>
  for the empty classes, whatever the precision and recall functions return.
\<close>

theorem evaluate_segmentation_absent_class:
  "compute_iou [0, 1, 1, 2] [0, 0, 1, 1] = Inr [Finite (1 / 2), Finite (1 / 3)]
   \<and> dice_coef_multilabel [0, 1, 1, 2] [0, 0, 1, 1] = Inr [20001 / 30001, 20001 / 40001]
   \<and> evaluate_segmentation precision_score recall_score 4 [0, 1, 1, 2] [0, 0, 1, 1]
       = Inl IndexError
   \<and> isl (evaluate_segmentation precision_f recall_f 4 [0, 1, 1, 2] [0, 0, 1, 1])"
proof -
  have u: "np_unique ([0, 1, 1, 2] @ [0, 0, 1, 1]) = [0, 1, 2]"
    by (simp add: np_unique_def)
  have r: "[0..<4] = [0, 1, 2, 3]"
    by (simp add: upt_conv_Cons)
  have a: "evaluate_segmentation precision_score recall_score 4 [0, 1, 1, 2] [0, 0, 1, 1]
           = Inl IndexError"
    by (simp add: evaluate_segmentation_def global_accuracy_example compute_iou_example
        dice_coef_multilabel_example r bind_err_def precision_score_def recall_score_def u
        get_item_def)
  have b: "isl (evaluate_segmentation precision_f recall_f 4 [0, 1, 1, 2] [0, 0, 1, 1])"
    using dict_loop_two_iou_entries
    by (simp add: evaluate_segmentation_def global_accuracy_example compute_iou_example
        dice_coef_multilabel_example r bind_err_def split: sum.splits)
  from compute_iou_example dice_coef_multilabel_example a b show ?thesis by simp
qed

text \<open>
  C3, at the input \<open>y_pred = [0, 2, 2, 2]\<close>, \<open>y_true = [0, 0, 2, 2]\<close>: the ground truth holds
  the two classes 0 and 2, so the loop runs over the indices 0 and 1. The result has two
  values, the Dice quotient of class 0 and that of the empty class 1; class 2, present in
  both maps, and class 3 get no value.
\<close>

theorem dice_coef_multilabel_absent_class:
  "dice_coef_multilabel [0, 2, 2, 2] [0, 0, 2, 2] = Inr [20001 / 30001, 1]"
  by (simp add: dice_coef_multilabel_def np_unique_def dice_coef_def np_binop_def np_sum_def
      eq_mask_def smooth_def bind_err_def upt_conv_Cons Let_def)

section \<open>Early stopping\<close>

text \<open>
  C4 (as amended). With \<open>patience = 2\<close>, \<open>wait = 0\<close> and the losses
  \<open>1.0, 0.9, 0.95, 0.96, 0.97\<close> the policy improves twice, counts 1 at the third
  invocation and counts 2 at the fourth, which sets \<open>early_stop\<close>: the flag becomes true
  exactly at the fourth invocation. The training loop, which checks the flag after every
  invocation, runs the epochs 0 to 3 and stops; the fifth loss is never consumed.
\<close>

theorem early_stop_at_fourth_call:
  "stopping_trace (EarlyStopping 2 0) 0 [1, 9 / 10, 95 / 100, 96 / 100, 97 / 100] =
     [\<lparr>patience = 2, wait = 0, best_loss = Some 1, counter = 0, early_stop = False\<rparr>,
      \<lparr>patience = 2, wait = 0, best_loss = Some (9 / 10), counter = 0, early_stop = False\<rparr>,
      \<lparr>patience = 2, wait = 0, best_loss = Some (9 / 10), counter = 1, early_stop = False\<rparr>,
      \<lparr>patience = 2, wait = 0, best_loss = Some (9 / 10), counter = 2, early_stop = True\<rparr>,
      \<lparr>patience = 2, wait = 0, best_loss = Some (9 / 10), counter = 3, early_stop = True\<rparr>]
   \<and> first_stop_call
        (stopping_trace (EarlyStopping 2 0) 0 [1, 9 / 10, 95 / 100, 96 / 100, 97 / 100]) = 4
   \<and> train_loop (\<lambda>epoch. [1, 9 / 10, 95 / 100, 96 / 100, 97 / 100] ! epoch) 5
        (EarlyStopping 2 0)
      = ([0, 1, 2, 3],
         \<lparr>patience = 2, wait = 0, best_loss = Some (9 / 10), counter = 2, early_stop = True\<rparr>)"
proof -
  have trace:
    "stopping_trace (EarlyStopping 2 0) 0 [1, 9 / 10, 95 / 100, 96 / 100, 97 / 100] =
     [\<lparr>patience = 2, wait = 0, best_loss = Some 1, counter = 0, early_stop = False\<rparr>,
      \<lparr>patience = 2, wait = 0, best_loss = Some (9 / 10), counter = 0, early_stop = False\<rparr>,
      \<lparr>patience = 2, wait = 0, best_loss = Some (9 / 10), counter = 1, early_stop = False\<rparr>,
      \<lparr>patience = 2, wait = 0, best_loss = Some (9 / 10), counter = 2, early_stop = True\<rparr>,
      \<lparr>patience = 2, wait = 0, best_loss = Some (9 / 10), counter = 3, early_stop = True\<rparr>]"
    by (simp add: EarlyStopping_def stopping_call_def below_best_def Let_def)
  have loop:
    "train_loop (\<lambda>epoch. [1, 9 / 10, 95 / 100, 96 / 100, 97 / 100] ! epoch) 5
        (EarlyStopping 2 0)
      = ([0, 1, 2, 3],
         \<lparr>patience = 2, wait = 0, best_loss = Some (9 / 10), counter = 2, early_stop = True\<rparr>)"
    by (simp add: train_loop_def upt_conv_Cons EARLYSTOP_def EarlyStopping_def
        stopping_call_def below_best_def Let_def)
  show ?thesis
    unfolding trace using loop by (simp add: first_stop_call_def)
qed

text \<open>
  C4, the claim as stated fails: the first invocation that leaves \<open>early_stop\<close> set is
  the fourth, not the fifth, and the loop makes no fifth invocation.
\<close>

theorem early_stop_fifth_call_counterexample:
  "first_stop_call
     (stopping_trace (EarlyStopping 2 0) 0 [1, 9 / 10, 95 / 100, 96 / 100, 97 / 100]) \<noteq> 5
   \<and> early_stop
        (stopping_trace (EarlyStopping 2 0) 0 [1, 9 / 10, 95 / 100, 96 / 100, 97 / 100] ! 3)
   \<and> length (fst (train_loop (\<lambda>epoch. [1, 9 / 10, 95 / 100, 96 / 100, 97 / 100] ! epoch) 5
                    (EarlyStopping 2 0))) = 4"
  by (simp add: first_stop_call_def train_loop_def upt_conv_Cons EARLYSTOP_def
      EarlyStopping_def stopping_call_def below_best_def Let_def)

section \<open>Loading a bare state dictionary\<close>

text \<open>
  C8, on a bare model-state dictionary: a checkpoint without the key \<open>state_dict\<close> sends
  \<open>load_checkpoint\<close> to its fallback; when the model accepts the dictionary, the function
  goes on to \<open>return checkpoint["epoch"]\<close>, and a state dictionary without the key
  \<open>epoch\<close> makes the call end with \<open>KeyError\<close> for \<open>epoch\<close>, after the model has been
  loaded. The load does not succeed, and the error is not the descriptive \<open>ValueError\<close>.
\<close>

theorem load_checkpoint_bare_state_dict:
  assumes "map_of checkpoint ''state_dict'' = None"
    and "mload (PyDict checkpoint) (model objs) = Inr m"
    and "map_of checkpoint ''epoch'' = None"
  shows "load_checkpoint mload oload sload checkpoint objs
         = (Inl (KeyError ''epoch''), objs\<lparr>model := m\<rparr>)"
  using assms
  by (simp add: load_checkpoint_def load_structured_def load_bare_def dict_get_def
      bind_err_def is_KeyError_def)

theorem load_checkpoint_bare_state_dict_witness:
  "load_checkpoint (\<lambda>v m. Inr v) (\<lambda>v x. Inr v) (\<lambda>v s. Inr v)
      [(''conv.weight'', PyTensor [1, 2])]
      \<lparr>model = PyNone, optimizer = Some PyNone, scheduler = Some PyNone\<rparr>
   = (Inl (KeyError ''epoch''),
      \<lparr>model = PyDict [(''conv.weight'', PyTensor [1, 2])],
       optimizer = Some PyNone, scheduler = Some PyNone\<rparr>)"
  using load_checkpoint_bare_state_dict [of "[(''conv.weight'', PyTensor [1, 2])]"
      "\<lambda>v m. Inr v" "\<lparr>model = PyNone, optimizer = Some PyNone, scheduler = Some PyNone\<rparr>"
      "PyDict [(''conv.weight'', PyTensor [1, 2])]" "\<lambda>v x. Inr v" "\<lambda>v s. Inr v"]
  by simp

end
